theory Spec2Isabelle
  imports Main
begin

section \<open>Python values, errors and the plotting canvas\<close>

text \<open>
  The renderers of \<^verbatim>\<open>islplot/plotter.py\<close> pass their style options (colours, markers,
  sizes, flags) through to the plotting library unchanged and only test their truth
  value. They are modelled as dynamically typed Python values.
\<close>

datatype pyval = PyNone | PyBool bool | PyInt int | PyStr string

text \<open>Python's truth value testing, as used by \<^verbatim>\<open>if x:\<close> and \<^verbatim>\<open>if not x:\<close>.\<close>

fun truthy :: "pyval \<Rightarrow> bool" where
  "truthy PyNone = False"
| "truthy (PyBool b) = b"
| "truthy (PyInt n) = (n \<noteq> 0)"
| "truthy (PyStr s) = (s \<noteq> [])"

text \<open>
  The exceptions of a call: a failed \<^verbatim>\<open>assert\<close> (with its message, if any), an
  out-of-range list index, a call with a keyword that the callee does not accept, the
  \<^verbatim>\<open>ValueError\<close> of the plotting library for a position or a path vertex that does not
  have two coordinates, and \<^verbatim>\<open>islpy.Error\<close>, the exception of the set library, which
  that library also raises in place of any exception of a callback it runs.
\<close>

datatype error = AssertionError "string option" | IndexError | TypeError | ValueError | IslError

datatype pathcode = MOVETO | LINETO | CLOSEPOLY

record arrowprops =
  ap_arrowstyle :: pyval
  ap_connectionstyle :: string
  ap_shrinkA :: int
  ap_shrinkB :: int
  ap_linewidth :: pyval
  ap_color :: pyval

text \<open>
  The canvas is the process-wide state of the plotting library. It is modelled as the
  sequence of calls the module has made on it, oldest first:
  \<^item> \<open>Autoscale enable tight\<close> for \<^verbatim>\<open>_plt.autoscale(enable=True, tight=True)\<close>;
  \<^item> \<open>Tight_layout\<close> for \<^verbatim>\<open>_plt.tight_layout()\<close>;
  \<^item> \<open>Plot x y fmt markersize color lw\<close> for \<^verbatim>\<open>_plt.plot(x, y, fmt, markersize, color, lw)\<close>;
  \<^item> \<open>Annotate text xy xycoords xytext textcoords arrowprops\<close> for \<^verbatim>\<open>graph.annotate\<close>;
  \<^item> \<open>Add_patch verts codes facecolor\<close> for
    \<^verbatim>\<open>_plt.gca().add_patch(PathPatch(Path(verts, codes), facecolor=color))\<close>.
\<close>

datatype 'c call =
    Autoscale bool bool
  | Tight_layout
  | Plot "'c list" "'c list" pyval pyval pyval "pyval option"
  | Annotate string "'c list" string "'c list" string arrowprops
  | Add_patch "'c list list" "pathcode list" pyval

type_synonym 'c canvas = "'c call list"

text \<open>A renderer returns \<^verbatim>\<open>None\<close> or raises, and leaves the canvas as it is at that moment.\<close>

type_synonym 'c outcome = "(error + unit) \<times> 'c canvas"

text \<open>
  With the arrow style \<^verbatim>\<open>->\<close>, the default of the module, the plotting library draws
  the arrow of an annotation from \<^verbatim>\<open>xytext\<close> to \<^verbatim>\<open>xy\<close>: its tail is at
  \<^verbatim>\<open>xytext\<close> and its head at \<^verbatim>\<open>xy\<close>. Where another style puts the head is not
  modelled.
\<close>

fun arrow_tail :: "'c call \<Rightarrow> 'c list option" where
  "arrow_tail (Annotate text xy xycoords xytext textcoords props) =
     (if ap_arrowstyle props = PyStr ''->'' then Some xytext else None)"
| "arrow_tail other = None"

fun arrow_head :: "'c call \<Rightarrow> 'c list option" where
  "arrow_head (Annotate text xy xycoords xytext textcoords props) =
     (if ap_arrowstyle props = PyStr ''->'' then Some xy else None)"
| "arrow_head other = None"

fun is_plot :: "'c call \<Rightarrow> bool" where
  "is_plot (Plot x y fmt markersize color lw) = True"
| "is_plot other = False"

fun is_annotate :: "'c call \<Rightarrow> bool" where
  "is_annotate (Annotate text xy xycoords xytext textcoords props) = True"
| "is_annotate other = False"

fun is_patch :: "'c call \<Rightarrow> bool" where
  "is_patch (Add_patch verts codes facecolor) = True"
| "is_patch other = False"

text \<open>The drawing primitives, as opposed to the calls that configure the canvas.\<close>

definition is_drawing :: "'c call \<Rightarrow> bool" where
  "is_drawing c = (is_plot c \<or> is_annotate c \<or> is_patch c)"

section \<open>The geometry library and the helpers of \<^verbatim>\<open>islplot.support\<close>\<close>

text \<open>
  Points, sets and maps are opaque objects of the integer set library; the module only
  calls their methods. The library is a parameter of every renderer: a record of the
  methods the module calls, each a function of the objects it is called on. A basic set
  and a set share one type, as the module passes both to the same functions. The fields
  carry the names of the methods, but for \<open>is_equal\<close> (the comparison \<^verbatim>\<open>==\<close> of two
  sets), \<open>apply_set\<close> (\<^verbatim>\<open>apply\<close> of a set), \<open>range_of\<close> and \<open>domain_of\<close>
  (\<^verbatim>\<open>range\<close> and \<^verbatim>\<open>domain\<close> of a map). \<open>foreach_point\<close> and
  \<open>foreach_basic_set\<close> give the points and the basic sets in the order in which the
  library passes them to the callback.

  The last three fields are the helpers the module imports from
  \<^verbatim>\<open>islplot.support\<close>, whose source is not part of the files at hand; they are
  parameters as well, so that what is proved of a renderer holds whatever they compute.
  The vertex query \<^verbatim>\<open>bset_get_vertex_coordinates\<close> returns the vertices or raises: the
  module guards it with an assertion, and a property of that guard needs a query whose
  failure can be told from the failure of the assertion.
\<close>

record ('p, 's, 'm, 'c) isl =
  foreach_point :: "'s \<Rightarrow> 'p list"
  foreach_basic_set :: "'s \<Rightarrow> 's list"
  is_bounded :: "'s \<Rightarrow> bool"
  convex_hull :: "'s \<Rightarrow> 's"
  is_equal :: "'s \<Rightarrow> 's \<Rightarrow> bool"
  from_point :: "'p \<Rightarrow> 's"
  apply_set :: "'s \<Rightarrow> 'm \<Rightarrow> 's"
  range_of :: "'m \<Rightarrow> 's"
  domain_of :: "'m \<Rightarrow> 's"
  intersect_range :: "'m \<Rightarrow> 's \<Rightarrow> 'm"
  intersect_domain :: "'m \<Rightarrow> 's \<Rightarrow> 'm"
  apply_range :: "'m \<Rightarrow> 'm \<Rightarrow> 'm"
  apply_domain :: "'m \<Rightarrow> 'm \<Rightarrow> 'm"
  reverse :: "'m \<Rightarrow> 'm"
  subtract :: "'m \<Rightarrow> 'm \<Rightarrow> 'm"
  get_point_coordinates :: "'p \<Rightarrow> 'c list"
  bset_get_vertex_coordinates :: "'s \<Rightarrow> error + 'c list list"
  get_rectangular_hull :: "'s \<Rightarrow> int \<Rightarrow> 's"

section \<open>Python control flow\<close>

text \<open>\<^verbatim>\<open>xs[i]\<close> for a non-negative index: out of range raises \<^verbatim>\<open>IndexError\<close>.\<close>

definition getitem :: "'a list \<Rightarrow> nat \<Rightarrow> error + 'a" where
  "getitem xs i = (if i < length xs then Inr (xs ! i) else Inl IndexError)"

text \<open>\<^verbatim>\<open>[f(x) for x in xs]\<close>: the first element on which \<open>f\<close> raises ends the comprehension.\<close>

fun comprehension :: "('a \<Rightarrow> error + 'b) \<Rightarrow> 'a list \<Rightarrow> error + 'b list" where
  "comprehension f [] = Inr []"
| "comprehension f (x # xs) =
     (case f x of
        Inl e \<Rightarrow> Inl e
      | Inr y \<Rightarrow> (case comprehension f xs of Inl e \<Rightarrow> Inl e | Inr ys \<Rightarrow> Inr (y # ys)))"

text \<open>Statement sequencing: an exception of the first statement skips the second.\<close>

fun then_do :: "(error + unit) \<times> 'st \<Rightarrow> ('st \<Rightarrow> (error + unit) \<times> 'st) \<Rightarrow> (error + unit) \<times> 'st" where
  "then_do (Inl e, cv) f = (Inl e, cv)"
| "then_do (Inr u, cv) f = f cv"

text \<open>\<^verbatim>\<open>for x in xs: body(x)\<close>: an exception in the body ends the loop and propagates.\<close>

fun for_each :: "('a \<Rightarrow> 'st \<Rightarrow> (error + unit) \<times> 'st) \<Rightarrow> 'a list \<Rightarrow> 'st \<Rightarrow> (error + unit) \<times> 'st" where
  "for_each body [] cv = (Inr (), cv)"
| "for_each body (x # xs) cv = then_do (body x cv) (for_each body xs)"

text \<open>
  A \<^verbatim>\<open>foreach_*\<close> method of the set library with a callback that can raise: the first
  exception of the callback ends the enumeration, and the library raises
  \<^verbatim>\<open>islpy.Error\<close> in its place. What the callback has done up to there stays done.
\<close>

definition isl_foreach ::
  "('a \<Rightarrow> 'st \<Rightarrow> (error + unit) \<times> 'st) \<Rightarrow> 'a list \<Rightarrow> 'st \<Rightarrow> (error + unit) \<times> 'st" where
  "isl_foreach callback xs cv =
     (case for_each callback xs cv of
        (Inl e, cv') \<Rightarrow> (Inl IslError, cv')
      | (Inr u, cv') \<Rightarrow> (Inr u, cv'))"

text \<open>
  Keyword arguments are a dictionary from names to values, here an association list.
  \<^verbatim>\<open>kwargs.pop(key, default)\<close> and the binding of a keyword to a parameter with a default
  both read the value stored under the name, or the default.
\<close>

type_synonym kwargs = "(string \<times> pyval) list"

definition kw_pop :: "kwargs \<Rightarrow> string \<Rightarrow> pyval \<Rightarrow> pyval" where
  "kw_pop kw key dflt = (case map_of kw key of None \<Rightarrow> dflt | Some v \<Rightarrow> v)"

section \<open>The renderers\<close>

subsection \<open>\<^verbatim>\<open>plot_set_points\<close>\<close>

definition plot_set_points ::
  "('p, 's, 'm, 'c) isl \<Rightarrow> 's \<Rightarrow> pyval \<Rightarrow> pyval \<Rightarrow> pyval \<Rightarrow> 'c canvas \<Rightarrow> 'c outcome" where
  "plot_set_points lib set_data color sz marker cv =
     (let points = map (get_point_coordinates lib) (foreach_point lib set_data) in
      case comprehension (\<lambda>x. getitem x 0) points of
        Inl e \<Rightarrow> (Inl e, cv)
      | Inr dimX \<Rightarrow>
          (case comprehension (\<lambda>x. getitem x 1) points of
             Inl e \<Rightarrow> (Inl e, cv)
           | Inr dimY \<Rightarrow> (Inr (), cv @ [Plot dimX dimY marker sz color (Some (PyInt 0))])))"

subsection \<open>\<^verbatim>\<open>_plot_arrow\<close>\<close>

text \<open>
  The canvas is the \<^verbatim>\<open>graph\<close> argument. The extra positional arguments are never read and
  the only caller passes none. \<^verbatim>\<open>graph.annotate\<close> raises \<^verbatim>\<open>ValueError\<close> unless both
  positions have exactly two coordinates.
\<close>

definition plot_arrow :: "'c list \<Rightarrow> 'c list \<Rightarrow> kwargs \<Rightarrow> 'c canvas \<Rightarrow> 'c outcome" where
  "plot_arrow start end_pos kw graph =
     (let shrinkA = 10;
          shrinkB = 10;
          style = kw_pop kw ''style'' (PyStr ''->'');
          width = kw_pop kw ''width'' (PyInt 1);
          color = kw_pop kw ''color'' (PyStr ''black'')
      in if length end_pos = 2 \<and> length start = 2
         then (Inr (), graph @ [Annotate '''' end_pos ''data'' start ''data''
                 \<lparr>ap_arrowstyle = style, ap_connectionstyle = ''arc3'',
                  ap_shrinkA = shrinkA, ap_shrinkB = shrinkB,
                  ap_linewidth = width, ap_color = color\<rparr>])
         else (Inl ValueError, graph))"

subsection \<open>\<^verbatim>\<open>plot_map\<close>\<close>

definition plot_map ::
  "('p, 's, 'm, 'c) isl \<Rightarrow> 'm \<Rightarrow> pyval \<Rightarrow> pyval \<Rightarrow> pyval \<Rightarrow> 'c canvas \<Rightarrow> 'c outcome" where
  "plot_map lib map_data edge_style edge_width color cv =
     (let start_points = foreach_point lib (range_of lib map_data) in
      for_each (\<lambda>start.
          let limited = intersect_range lib map_data (from_point lib start);
              end_points = foreach_point lib (domain_of lib limited)
          in for_each (\<lambda>end_point.
               plot_arrow (get_point_coordinates lib end_point) (get_point_coordinates lib start)
                 [(''color'', color), (''style'', edge_style), (''width'', edge_width)])
             end_points)
        start_points cv)"

subsection \<open>\<^verbatim>\<open>plot_bset_shape\<close>\<close>

text \<open>
  \<^verbatim>\<open>Path(verts, codes)\<close> raises \<^verbatim>\<open>ValueError\<close> unless every vertex has exactly two
  coordinates, as the closing vertex \<^verbatim>\<open>(0, 0)\<close> has.
\<close>

definition plot_bset_shape ::
  "('p, 's, 'm, 'c::zero) isl \<Rightarrow> 's \<Rightarrow> pyval \<Rightarrow> pyval \<Rightarrow> pyval \<Rightarrow> pyval \<Rightarrow> pyval \<Rightarrow>
     'c canvas \<Rightarrow> 'c outcome" where
  "plot_bset_shape lib bset_data show_vertices color vertex_color0 vertex_marker vertex_size cv =
     (if \<not> is_bounded lib bset_data then (Inl (AssertionError (Some ''Expected bounded set'')), cv)
      else
        let vertex_color = (if \<not> truthy vertex_color0 then color else vertex_color0)
        in case bset_get_vertex_coordinates lib bset_data of
             Inl e \<Rightarrow> (Inl e, cv)
           | Inr vertices \<Rightarrow>
               then_do
                 (if truthy show_vertices then
                    (case comprehension (\<lambda>x. getitem x 0) vertices of
                       Inl e \<Rightarrow> (Inl e, cv)
                     | Inr dimX \<Rightarrow>
                         (case comprehension (\<lambda>x. getitem x 1) vertices of
                            Inl e \<Rightarrow> (Inl e, cv)
                          | Inr dimY \<Rightarrow>
                              (Inr (),
                               cv @ [Plot dimX dimY vertex_marker vertex_size vertex_color None])))
                  else (Inr (), cv))
                 (\<lambda>cv. if length vertices = 0 then (Inr (), cv)
                       else
                         let codes = (replicate (length vertices) LINETO)[0 := MOVETO];
                             pathdata = zip codes vertices @ [(CLOSEPOLY, [0, 0])];
                             codes = map fst pathdata;
                             verts = map snd pathdata
                         in if list_all (\<lambda>v. length v = 2) verts
                            then (Inr (), cv @ [Add_patch verts codes color])
                            else (Inl ValueError, cv)))"

text \<open>
  The call \<^verbatim>\<open>plot_bset_shape(x, **kwargs)\<close>: a keyword that is not a parameter of
  \<^verbatim>\<open>plot_bset_shape\<close>, or that names the parameter already bound to \<^verbatim>\<open>x\<close>, is a
  \<^verbatim>\<open>TypeError\<close>; a parameter without a keyword takes its default.
\<close>

definition plot_bset_shape_keywords :: "string list" where
  "plot_bset_shape_keywords =
     [''show_vertices'', ''color'', ''vertex_color'', ''vertex_marker'', ''vertex_size'']"

definition call_plot_bset_shape ::
  "('p, 's, 'm, 'c::zero) isl \<Rightarrow> 's \<Rightarrow> kwargs \<Rightarrow> 'c canvas \<Rightarrow> 'c outcome" where
  "call_plot_bset_shape lib x kw cv =
     (if \<not> list_all (\<lambda>k. k \<in> set plot_bset_shape_keywords) (map fst kw)
      then (Inl TypeError, cv)
      else plot_bset_shape lib x
             (kw_pop kw ''show_vertices'' (PyBool True))
             (kw_pop kw ''color'' (PyStr ''gray''))
             (kw_pop kw ''vertex_color'' PyNone)
             (kw_pop kw ''vertex_marker'' (PyStr ''o''))
             (kw_pop kw ''vertex_size'' (PyInt 10)) cv)"

subsection \<open>\<^verbatim>\<open>plot_set_shapes\<close>\<close>

definition plot_set_shapes ::
  "('p, 's, 'm, 'c::zero) isl \<Rightarrow> 's \<Rightarrow> pyval list \<Rightarrow> kwargs \<Rightarrow> 'c canvas \<Rightarrow> 'c outcome" where
  "plot_set_shapes lib set_data args kw cv =
     (if \<not> is_bounded lib set_data then (Inl (AssertionError (Some ''Expected bounded set'')), cv)
      else isl_foreach (\<lambda>x. call_plot_bset_shape lib x kw) (foreach_basic_set lib set_data) cv)"

subsection \<open>\<^verbatim>\<open>plot_map_as_groups\<close>\<close>

text \<open>The body of the loop over the points of the range.\<close>

definition plot_group ::
  "('p, 's, 'm, 'c::zero) isl \<Rightarrow> 'm \<Rightarrow> pyval \<Rightarrow> pyval \<Rightarrow> pyval \<Rightarrow> pyval \<Rightarrow> 'p \<Rightarrow>
     'c canvas \<Rightarrow> 'c outcome" where
  "plot_group lib bmap color vertex_color vertex_marker vertex_size point cv =
     (let point_set = from_point lib point;
          part_set = domain_of lib (intersect_range lib bmap point_set);
          part_set_convex = convex_hull lib part_set
      in if \<not> is_equal lib part_set part_set_convex then (Inl (AssertionError None), cv)
         else
           let part_set = part_set_convex
           in then_do (plot_set_points lib part_set vertex_color vertex_size vertex_marker cv)
                (plot_bset_shape lib part_set (PyBool True) color vertex_color
                   vertex_marker vertex_size))"

definition plot_map_as_groups ::
  "('p, 's, 'm, 'c::zero) isl \<Rightarrow> 'm \<Rightarrow> pyval \<Rightarrow> pyval \<Rightarrow> pyval \<Rightarrow> pyval \<Rightarrow>
     'c canvas \<Rightarrow> 'c outcome" where
  "plot_map_as_groups lib bmap color vertex_color0 vertex_marker vertex_size cv =
     (let vertex_color = (if \<not> truthy vertex_color0 then color else vertex_color0);
          points = foreach_point lib (range_of lib bmap)
      in for_each (plot_group lib bmap color vertex_color vertex_marker vertex_size) points cv)"

subsection \<open>\<^verbatim>\<open>plot_domain\<close>\<close>

text \<open>
  An optional set or map argument is \<open>None\<close> or an object of the library, and every
  object of the library is true in a condition.
\<close>

definition plot_domain ::
  "('p, 's, 'm, 'c::zero) isl \<Rightarrow> 's \<Rightarrow> 'm option \<Rightarrow> 'm option \<Rightarrow> 'm option \<Rightarrow>
     pyval \<Rightarrow> pyval \<Rightarrow> pyval \<Rightarrow> pyval \<Rightarrow> pyval \<Rightarrow> 'c canvas \<Rightarrow> 'c outcome" where
  "plot_domain lib domain0 dependences0 tiling0 space tile_color vertex_color vertex_size
       vertex_marker background cv0 =
     (let cv1 = cv0 @ [Autoscale True True];
          cv2 = cv1 @ [Tight_layout];
          (domain, dependences, tiling) =
            (case space of
               None \<Rightarrow> (domain0, dependences0, tiling0)
             | Some sp \<Rightarrow>
                 (apply_set lib domain0 sp,
                  map_option (\<lambda>d. apply_domain lib (apply_range lib d sp) sp) dependences0,
                  map_option (\<lambda>t. apply_domain lib t sp) tiling0));
          hull = get_rectangular_hull lib domain 1
      in then_do
           (if truthy background
            then plot_set_points lib hull (PyStr ''lightgray'') vertex_size vertex_marker cv2
            else (Inr (), cv2))
        (\<lambda>cv. then_do (plot_set_points lib domain vertex_color vertex_size vertex_marker cv)
        (\<lambda>cv. then_do
           (case dependences of
              None \<Rightarrow> (Inr (), cv)
            | Some d \<Rightarrow>
                (let d1 = intersect_range lib d domain;
                     d2 = intersect_domain lib d1 domain;
                     d3 = (case tiling of
                             None \<Rightarrow> d2
                           | Some t \<Rightarrow> subtract lib d2 (apply_range lib t (reverse lib t)))
                 in plot_map lib d3 (PyStr ''->'') (PyInt 1) (PyStr ''gray'') cv))
        (\<lambda>cv. case tiling of
              None \<Rightarrow> (Inr (), cv)
            | Some t \<Rightarrow>
                plot_map_as_groups lib (intersect_domain lib t domain) tile_color vertex_color
                  vertex_marker vertex_size cv))))"


section \<open>A finite instance of the library\<close>

text \<open>
  An instance of the library on finite data, on which the renderers can be run: a point
  is its list of integer coordinates, a set is the list of its points, and a map is the
  list of its pairs. Sets and maps of this instance are finite, hence bounded. The
  operations on maps are those of relations. The convex hull and the vertices are
  computed for points of at most two coordinates. This instance enumerates the points
  of a set in the order of the list, each point where it stands last; the set library
  has an order of its own, which the module takes as it comes.
\<close>

type_synonym fin_point = "int list"
type_synonym fin_set = "int list list"
type_synonym fin_map = "(int list \<times> int list) list"

definition px :: "fin_point \<Rightarrow> int" where
  "px p = (case p of [] \<Rightarrow> 0 | x # r \<Rightarrow> x)"

definition py :: "fin_point \<Rightarrow> int" where
  "py p = (case p of x # y # r \<Rightarrow> y | r \<Rightarrow> 0)"

text \<open>Twice the signed area of the triangle \<open>a b c\<close>: positive when it turns left.\<close>

definition cross :: "fin_point \<Rightarrow> fin_point \<Rightarrow> fin_point \<Rightarrow> int" where
  "cross a b c = (px b - px a) * (py c - py a) - (py b - py a) * (px c - px a)"

definition on_segment :: "fin_point \<Rightarrow> fin_point \<Rightarrow> fin_point \<Rightarrow> bool" where
  "on_segment a b p =
     (cross a b p = 0 \<and> min (px a) (px b) \<le> px p \<and> px p \<le> max (px a) (px b)
        \<and> min (py a) (py b) \<le> py p \<and> py p \<le> max (py a) (py b))"

definition in_triangle :: "fin_point \<Rightarrow> fin_point \<Rightarrow> fin_point \<Rightarrow> fin_point \<Rightarrow> bool" where
  "in_triangle a b c p =
     (let d1 = cross a b p; d2 = cross b c p; d3 = cross c a p
      in cross a b c \<noteq> 0
         \<and> \<not> ((d1 < 0 \<or> d2 < 0 \<or> d3 < 0) \<and> (d1 > 0 \<or> d2 > 0 \<or> d3 > 0)))"

text \<open>
  In the plane a point is in the convex hull of a finite set when it is on a segment
  between two of its points or in a triangle of three of them.
\<close>

definition in_hull :: "fin_set \<Rightarrow> fin_point \<Rightarrow> bool" where
  "in_hull ps p =
     (list_ex (\<lambda>a. list_ex (\<lambda>b. on_segment a b p) ps) ps
      \<or> list_ex (\<lambda>a. list_ex (\<lambda>b. list_ex (\<lambda>c. in_triangle a b c p) ps) ps) ps)"

text \<open>
  Modelled from the spec: \<^verbatim>\<open>get_rectangular_hull\<close> of \<^verbatim>\<open>islplot.support\<close>, whose source
  is missing, for this instance: "a rectangular bounding hull of the domain, expanded by a
  fixed margin in each direction". These are the bounds of every coordinate, widened by
  \<open>offset\<close>, and the points of the box they span.
\<close>

definition bounds :: "fin_set \<Rightarrow> int \<Rightarrow> (int \<times> int) list" where
  "bounds ps offset =
     (case ps of
        [] \<Rightarrow> []
      | p # r \<Rightarrow>
          map (\<lambda>i. (fold min (map (\<lambda>q. q ! i) r) (p ! i) - offset,
                    fold max (map (\<lambda>q. q ! i) r) (p ! i) + offset))
            [0 ..< length p])"

fun box :: "(int \<times> int) list \<Rightarrow> fin_set" where
  "box [] = [[]]"
| "box ((lo, hi) # r) = concat (map (\<lambda>x. map (\<lambda>p. x # p) (box r)) [lo .. hi])"

definition fin_rectangular_hull :: "fin_set \<Rightarrow> int \<Rightarrow> fin_set" where
  "fin_rectangular_hull ps offset = (if ps = [] then [] else box (bounds ps offset))"

definition fin_convex_hull :: "fin_set \<Rightarrow> fin_set" where
  "fin_convex_hull ps = filter (in_hull ps) (fin_rectangular_hull ps 0)"

text \<open>
  Modelled from the spec: \<^verbatim>\<open>bset_get_vertex_coordinates\<close> of \<^verbatim>\<open>islplot.support\<close>, whose
  source is missing, for this instance: the "boundary vertices" of a convex shape "in a
  consistent winding order". The vertices are the points that are not in the hull of the
  others, counter-clockwise from the first one. \<^verbatim>\<open>get_point_coordinates\<close>, the third
  helper, gives "an ordered numeric tuple of its coordinate values, one per dimension": in
  this instance a point is that tuple.
\<close>

fun insert_by :: "('a \<Rightarrow> 'a \<Rightarrow> bool) \<Rightarrow> 'a \<Rightarrow> 'a list \<Rightarrow> 'a list" where
  "insert_by ord x [] = [x]"
| "insert_by ord x (y # ys) = (if ord x y then x # y # ys else y # insert_by ord x ys)"

definition fin_vertices :: "fin_set \<Rightarrow> fin_set" where
  "fin_vertices ps =
     (case filter (\<lambda>p. \<not> in_hull (removeAll p ps) p) (remdups ps) of
        [] \<Rightarrow> []
      | v # vs \<Rightarrow> v # foldr (insert_by (\<lambda>a b. cross v a b > 0)) vs [])"

definition fin_isl :: "(fin_point, fin_set, fin_map, int) isl" where
  "fin_isl =
     \<lparr>foreach_point = remdups,
      foreach_basic_set = (\<lambda>s. map (\<lambda>p. [p]) (remdups s)),
      is_bounded = (\<lambda>s. True),
      convex_hull = fin_convex_hull,
      is_equal = (\<lambda>s t. set s = set t),
      from_point = (\<lambda>p. [p]),
      apply_set = (\<lambda>s m. map snd (filter (\<lambda>(a, b). a \<in> set s) m)),
      range_of = map snd,
      domain_of = map fst,
      intersect_range = (\<lambda>m s. filter (\<lambda>(a, b). b \<in> set s) m),
      intersect_domain = (\<lambda>m s. filter (\<lambda>(a, b). a \<in> set s) m),
      apply_range = (\<lambda>m n. concat (map (\<lambda>(a, b). map (\<lambda>(b', c). (a, c)) (filter (\<lambda>(b', c). b' = b) n)) m)),
      apply_domain = (\<lambda>m n. concat (map (\<lambda>(a, b). map (\<lambda>(a', c). (c, b)) (filter (\<lambda>(a', c). a' = a) n)) m)),
      reverse = map (\<lambda>(a, b). (b, a)),
      subtract = (\<lambda>m n. filter (\<lambda>x. x \<notin> set n) m),
      get_point_coordinates = (\<lambda>p. p),
      bset_get_vertex_coordinates = (\<lambda>s. Inr (fin_vertices s)),
      get_rectangular_hull = fin_rectangular_hull\<rparr>"

section \<open>Notions used to state the properties\<close>

text \<open>
  The contract of the library's set and map operations, for a reading \<open>P\<close> of a set
  object as the set of its points and a reading \<open>R\<close> of a map object as the set of its
  pairs (domain element first): a finite set is enumerated point by point, each point
  once, and the operations on maps are those of relations.
\<close>

definition isl_relational ::
  "('p, 's, 'm, 'c) isl \<Rightarrow> ('s \<Rightarrow> 'p set) \<Rightarrow> ('m \<Rightarrow> ('p \<times> 'p) set) \<Rightarrow> bool" where
  "isl_relational lib P R \<longleftrightarrow>
     (\<forall>s. finite (P s) \<longrightarrow> set (foreach_point lib s) = P s \<and> distinct (foreach_point lib s))
   \<and> (\<forall>p. P (from_point lib p) = {p})
   \<and> (\<forall>m. P (range_of lib m) = Range (R m))
   \<and> (\<forall>m. P (domain_of lib m) = Domain (R m))
   \<and> (\<forall>m s. R (intersect_range lib m s) = {(a, b). (a, b) \<in> R m \<and> b \<in> P s})
   \<and> (\<forall>m s. R (intersect_domain lib m s) = {(a, b). (a, b) \<in> R m \<and> a \<in> P s})
   \<and> (\<forall>m n. R (apply_range lib m n) = R m O R n)
   \<and> (\<forall>m. R (reverse lib m) = (R m)\<inverse>)
   \<and> (\<forall>m n. R (subtract lib m n) = R m - R n)"

text \<open>
  The contract of the operations that apply a map: the image of a set, the composition on
  the range, and the replacement of every domain element by its images.
\<close>

definition isl_applies ::
  "('p, 's, 'm, 'c) isl \<Rightarrow> ('s \<Rightarrow> 'p set) \<Rightarrow> ('m \<Rightarrow> ('p \<times> 'p) set) \<Rightarrow> bool" where
  "isl_applies lib P R \<longleftrightarrow>
     (\<forall>s m. P (apply_set lib s m) = R m `` P s)
   \<and> (\<forall>m n. R (apply_range lib m n) = R m O R n)
   \<and> (\<forall>m n. R (apply_domain lib m n) = {(c, b). \<exists>a. (a, b) \<in> R m \<and> (a, c) \<in> R n})"

text \<open>
  The group of a range point of a map, as \<^verbatim>\<open>plot_map_as_groups\<close> computes it, and the test
  the function asserts on it.
\<close>

definition group_of :: "('p, 's, 'm, 'c) isl \<Rightarrow> 'm \<Rightarrow> 'p \<Rightarrow> 's" where
  "group_of lib bmap point = domain_of lib (intersect_range lib bmap (from_point lib point))"

definition convex_group :: "('p, 's, 'm, 'c) isl \<Rightarrow> 'm \<Rightarrow> 'p \<Rightarrow> bool" where
  "convex_group lib bmap point =
     is_equal lib (group_of lib bmap point) (convex_hull lib (group_of lib bmap point))"

text \<open>The calls a renderer has added to the canvas \<open>cv\<close> it was started on.\<close>

definition issued :: "'c canvas \<Rightarrow> 'c outcome \<Rightarrow> 'c canvas" where
  "issued cv out = drop (length cv) (snd out)"


section \<open>Indexing and the point renderer\<close>

lemma comprehension_getitem_ok:
  "\<forall>x \<in> set xs. i < length x \<Longrightarrow> comprehension (\<lambda>x. getitem x i) xs = Inr (map (\<lambda>x. x ! i) xs)"
  by (induction xs) (simp_all add: getitem_def)

lemma comprehension_getitem_fail:
  "\<exists>x \<in> set xs. \<not> i < length x \<Longrightarrow> comprehension (\<lambda>x. getitem x i) xs = Inl IndexError"
proof (induction xs)
  case Nil
  then show ?case by simp
next
  case (Cons x xs)
  show ?case
  proof (cases "i < length x")
    case True
    with Cons.prems have "\<exists>x \<in> set xs. \<not> i < length x" by auto
    then have "comprehension (\<lambda>x. getitem x i) xs = Inl IndexError" by (rule Cons.IH)
    with True show ?thesis by (simp add: getitem_def)
  next
    case False
    then show ?thesis by (simp add: getitem_def)
  qed
qed

lemma plot_set_points_ok:
  assumes "\<forall>p \<in> set (foreach_point lib s). 2 \<le> length (get_point_coordinates lib p)"
  shows "plot_set_points lib s color sz marker cv =
           (Inr (), cv @ [Plot (map (\<lambda>p. get_point_coordinates lib p ! 0) (foreach_point lib s))
                               (map (\<lambda>p. get_point_coordinates lib p ! 1) (foreach_point lib s))
                               marker sz color (Some (PyInt 0))])"
proof -
  let ?points = "map (get_point_coordinates lib) (foreach_point lib s)"
  from assms have 0: "\<forall>x \<in> set ?points. 0 < length x" and 1: "\<forall>x \<in> set ?points. 1 < length x"
    by auto
  show ?thesis
    unfolding plot_set_points_def Let_def comprehension_getitem_ok [OF 0]
      comprehension_getitem_ok [OF 1]
    by (simp add: comp_def)
qed

lemma plot_set_points_fail:
  assumes "\<exists>p \<in> set (foreach_point lib s). length (get_point_coordinates lib p) < 2"
  shows "plot_set_points lib s color sz marker cv = (Inl IndexError, cv)"
proof -
  let ?points = "map (get_point_coordinates lib) (foreach_point lib s)"
  from assms obtain p where p: "p \<in> set (foreach_point lib s)"
    and "length (get_point_coordinates lib p) < 2" by blast
  then have "\<not> 1 < length (get_point_coordinates lib p)" by simp
  with p have 1: "\<exists>x \<in> set ?points. \<not> 1 < length x" by auto
  have "comprehension (\<lambda>x. getitem x 0) ?points = Inl IndexError
          \<or> comprehension (\<lambda>x. getitem x 0) ?points = Inr (map (\<lambda>x. x ! 0) ?points)"
    using comprehension_getitem_ok [of ?points 0] comprehension_getitem_fail [of ?points 0]
    by blast
  then show ?thesis
    unfolding plot_set_points_def Let_def comprehension_getitem_fail [OF 1]
    by auto
qed

text \<open>
  Claim C9. \<^verbatim>\<open>plot_set_points\<close> uses the first two coordinates of every enumerated point
  only. When every point has at least two coordinates, the one plot call gets coordinate 0
  of every point as its x values and coordinate 1 as its y values, whatever further
  coordinates the points have. When the set is not empty and its points have fewer than
  two coordinates, the call raises \<^verbatim>\<open>IndexError\<close> (not an assertion) and draws nothing.
\<close>

theorem plot_set_points_two_coordinates:
  "((\<forall>p \<in> set (foreach_point lib s). 2 \<le> length (get_point_coordinates lib p)) \<longrightarrow>
      plot_set_points lib s color sz marker cv =
        (Inr (), cv @ [Plot (map (\<lambda>p. get_point_coordinates lib p ! 0) (foreach_point lib s))
                            (map (\<lambda>p. get_point_coordinates lib p ! 1) (foreach_point lib s))
                            marker sz color (Some (PyInt 0))]))
   \<and> (foreach_point lib s \<noteq> []
        \<and> (\<forall>p \<in> set (foreach_point lib s). length (get_point_coordinates lib p) < 2) \<longrightarrow>
      plot_set_points lib s color sz marker cv = (Inl IndexError, cv))"
proof (intro conjI impI)
  assume "\<forall>p \<in> set (foreach_point lib s). 2 \<le> length (get_point_coordinates lib p)"
  then show "plot_set_points lib s color sz marker cv =
        (Inr (), cv @ [Plot (map (\<lambda>p. get_point_coordinates lib p ! 0) (foreach_point lib s))
                            (map (\<lambda>p. get_point_coordinates lib p ! 1) (foreach_point lib s))
                            marker sz color (Some (PyInt 0))])"
    by (rule plot_set_points_ok)
next
  assume a: "foreach_point lib s \<noteq> []
        \<and> (\<forall>p \<in> set (foreach_point lib s). length (get_point_coordinates lib p) < 2)"
  then obtain p where "p \<in> set (foreach_point lib s)" by (cases "foreach_point lib s") auto
  with a have "\<exists>p \<in> set (foreach_point lib s). length (get_point_coordinates lib p) < 2" by blast
  then show "plot_set_points lib s color sz marker cv = (Inl IndexError, cv)"
    by (rule plot_set_points_fail)
qed

lemma fin_isl_simps:
  "foreach_point fin_isl = remdups"
  "get_point_coordinates fin_isl = (\<lambda>p. p)"
  by (simp_all add: fin_isl_def)

text \<open>An instance: a set of three-dimensional points, and a set of one-dimensional points.\<close>

theorem plot_set_points_two_coordinates_witness:
  "plot_set_points fin_isl [[0, 0, 7], [1, 2, 9]] (PyStr ''black'') (PyInt 10) (PyStr ''o'') []
     = (Inr (), [Plot [0, 1] [0, 2] (PyStr ''o'') (PyInt 10) (PyStr ''black'') (Some (PyInt 0))])
   \<and> plot_set_points fin_isl [[4], [5]] (PyStr ''black'') (PyInt 10) (PyStr ''o'') []
     = (Inl IndexError, [])"
  using plot_set_points_two_coordinates [of fin_isl "[[0, 0, 7], [1, 2, 9]]" "PyStr ''black''" "PyInt 10" "PyStr ''o''" "[]"]
    plot_set_points_two_coordinates [of fin_isl "[[4], [5]]" "PyStr ''black''" "PyInt 10" "PyStr ''o''" "[]"]
  by (simp add: fin_isl_simps)


section \<open>The shape renderers\<close>

text \<open>
  Claim C2. On a basic set that the library reports as not bounded, \<^verbatim>\<open>plot_bset_shape\<close>
  raises the assertion error \<^verbatim>\<open>Expected bounded set\<close> and leaves the canvas as it was,
  whatever the vertex query of \<^verbatim>\<open>islplot.support\<close> does on that set, also when the
  query would raise: the assertion comes first and the query is not reached. (The
  \<^verbatim>\<open>assert\<close> statement is taken as enabled.)
\<close>

theorem plot_bset_shape_unbounded:
  assumes "\<not> is_bounded lib bset_data"
  shows "plot_bset_shape (lib\<lparr>bset_get_vertex_coordinates := vertex_query\<rparr>) bset_data
           show_vertices color vertex_color vertex_marker vertex_size cv
         = (Inl (AssertionError (Some ''Expected bounded set'')), cv)"
  using assms by (simp add: plot_bset_shape_def)

text \<open>
  An instance: a library that reports a set as unbounded and whose vertex query raises.
  The error is that of the assertion, not that of the query.
\<close>

theorem plot_bset_shape_unbounded_witness:
  "plot_bset_shape
       (fin_isl\<lparr>is_bounded := (\<lambda>s. False), bset_get_vertex_coordinates := (\<lambda>s. Inl IslError)\<rparr>)
       [[0, 0], [1, 0]] (PyBool True) (PyStr ''gray'') PyNone (PyStr ''o'') (PyInt 10) []
     = (Inl (AssertionError (Some ''Expected bounded set'')), [])"
  using plot_bset_shape_unbounded [of "fin_isl\<lparr>is_bounded := (\<lambda>s. False)\<rparr>" "[[0, 0], [1, 0]]"
      "\<lambda>s. Inl IslError" "PyBool True" "PyStr ''gray''" PyNone "PyStr ''o''" "PyInt 10" "[]"]
  by simp

text \<open>
  On a bounded set the query is reached: when it raises, its error ends the call. So a
  function that asked for the vertices before the assertion would not have the property
  above.
\<close>

lemma plot_bset_shape_query_raises:
  assumes "is_bounded lib bset_data"
    and "bset_get_vertex_coordinates lib bset_data = Inl e"
  shows "plot_bset_shape lib bset_data show_vertices color vertex_color vertex_marker vertex_size cv
         = (Inl e, cv)"
  using assms by (simp add: plot_bset_shape_def)

text \<open>
  Claim C3. On a bounded basic set whose vertex list is empty, \<^verbatim>\<open>plot_bset_shape\<close> makes
  the plot call for the (empty) vertex coordinates when \<^verbatim>\<open>show_vertices\<close> is true, and no
  call otherwise; then it returns, and no patch is among the calls it issued.
\<close>

theorem plot_bset_shape_no_vertices:
  assumes "is_bounded lib bset_data"
    and "bset_get_vertex_coordinates lib bset_data = Inr []"
  shows "plot_bset_shape lib bset_data show_vertices color vertex_color vertex_marker vertex_size cv
         = (Inr (),
            cv @ (if truthy show_vertices
                  then [Plot [] [] vertex_marker vertex_size
                          (if truthy vertex_color then vertex_color else color) None]
                  else []))
       \<and> \<not> list_ex is_patch
             (issued cv (plot_bset_shape lib bset_data show_vertices color vertex_color
                vertex_marker vertex_size cv))"
  using assms by (simp add: plot_bset_shape_def issued_def)

lemma fin_vertices_Nil: "fin_vertices [] = []"
  by (simp add: fin_vertices_def)

text \<open>An instance: the empty set, with and without the vertex markers.\<close>

theorem plot_bset_shape_no_vertices_witness:
  "plot_bset_shape fin_isl [] (PyBool True) (PyStr ''gray'') PyNone (PyStr ''o'') (PyInt 10) []
     = (Inr (), [Plot [] [] (PyStr ''o'') (PyInt 10) (PyStr ''gray'') None])
   \<and> plot_bset_shape fin_isl [] (PyBool False) (PyStr ''gray'') PyNone (PyStr ''o'') (PyInt 10) []
     = (Inr (), [])"
  using plot_bset_shape_no_vertices [of fin_isl "[]" "PyBool True" "PyStr ''gray''" PyNone "PyStr ''o''" "PyInt 10" "[]"]
    plot_bset_shape_no_vertices [of fin_isl "[]" "PyBool False" "PyStr ''gray''" PyNone "PyStr ''o''" "PyInt 10" "[]"]
  by (simp add: fin_isl_def fin_vertices_Nil)

text \<open>
  Claim C10. The positional arguments that \<^verbatim>\<open>plot_set_shapes\<close> accepts after the set have
  no effect: any two lists of them give the same outcome. On a bounded set, and with
  keywords that \<^verbatim>\<open>plot_bset_shape\<close> accepts, the function is the enumeration of the basic
  sets that calls \<^verbatim>\<open>plot_bset_shape\<close> on each with the five style options taken from the
  keywords, each at its default when its keyword is absent: \<^verbatim>\<open>show_vertices\<close> (true),
  \<^verbatim>\<open>color\<close> (gray), \<^verbatim>\<open>vertex_color\<close> (none), \<^verbatim>\<open>vertex_marker\<close> (o) and
  \<^verbatim>\<open>vertex_size\<close> (10). An error of one of these calls ends the enumeration and is
  raised as the error of the set library.
\<close>

theorem plot_set_shapes_ignores_args:
  "plot_set_shapes lib set_data args kw cv = plot_set_shapes lib set_data other_args kw cv
   \<and> (is_bounded lib set_data
        \<and> list_all (\<lambda>k. k \<in> set [''show_vertices'', ''color'', ''vertex_color'',
                                   ''vertex_marker'', ''vertex_size'']) (map fst kw) \<longrightarrow>
        plot_set_shapes lib set_data args kw cv
        = isl_foreach
            (\<lambda>x. plot_bset_shape lib x
                   (kw_pop kw ''show_vertices'' (PyBool True))
                   (kw_pop kw ''color'' (PyStr ''gray''))
                   (kw_pop kw ''vertex_color'' PyNone)
                   (kw_pop kw ''vertex_marker'' (PyStr ''o''))
                   (kw_pop kw ''vertex_size'' (PyInt 10)))
            (foreach_basic_set lib set_data) cv)"
proof (intro conjI impI)
  show "plot_set_shapes lib set_data args kw cv = plot_set_shapes lib set_data other_args kw cv"
    by (simp add: plot_set_shapes_def)
next
  assume a: "is_bounded lib set_data
        \<and> list_all (\<lambda>k. k \<in> set [''show_vertices'', ''color'', ''vertex_color'',
                                   ''vertex_marker'', ''vertex_size'']) (map fst kw)"
  then have v: "list_all (\<lambda>k. k \<in> set plot_bset_shape_keywords) (map fst kw)"
    unfolding plot_bset_shape_keywords_def by (rule conjunct2)
  have "(\<lambda>x. call_plot_bset_shape lib x kw)
        = (\<lambda>x. plot_bset_shape lib x
                   (kw_pop kw ''show_vertices'' (PyBool True))
                   (kw_pop kw ''color'' (PyStr ''gray''))
                   (kw_pop kw ''vertex_color'' PyNone)
                   (kw_pop kw ''vertex_marker'' (PyStr ''o''))
                   (kw_pop kw ''vertex_size'' (PyInt 10)))"
    by (intro ext) (simp only: call_plot_bset_shape_def v not_True_eq_False if_False)
  with a show "plot_set_shapes lib set_data args kw cv
        = isl_foreach
            (\<lambda>x. plot_bset_shape lib x
                   (kw_pop kw ''show_vertices'' (PyBool True))
                   (kw_pop kw ''color'' (PyStr ''gray''))
                   (kw_pop kw ''vertex_color'' PyNone)
                   (kw_pop kw ''vertex_marker'' (PyStr ''o''))
                   (kw_pop kw ''vertex_size'' (PyInt 10)))
            (foreach_basic_set lib set_data) cv"
    by (simp add: plot_set_shapes_def)
qed

text \<open>
  Two instances on the set \<open>{(0,0), (3,1)}\<close>. In the first the positional values
  \<^verbatim>\<open>"red", False\<close> are ignored, and the keywords give the colour of the shapes and the
  colour, marker and size of the vertices. In the second the keyword turns the vertex
  markers off and the shapes have the default colour.
\<close>

theorem plot_set_shapes_ignores_args_witness:
  "plot_set_shapes fin_isl [[0, 0], [3, 1]] [PyStr ''red'', PyBool False]
       [(''color'', PyStr ''blue''), (''vertex_color'', PyStr ''green''),
        (''vertex_marker'', PyStr ''x''), (''vertex_size'', PyInt 4)] []
   = (Inr (),
      [Plot [0] [0] (PyStr ''x'') (PyInt 4) (PyStr ''green'') None,
       Add_patch [[0, 0], [0, 0]] [MOVETO, CLOSEPOLY] (PyStr ''blue''),
       Plot [3] [1] (PyStr ''x'') (PyInt 4) (PyStr ''green'') None,
       Add_patch [[3, 1], [0, 0]] [MOVETO, CLOSEPOLY] (PyStr ''blue'')])
   \<and> plot_set_shapes fin_isl [[0, 0], [3, 1]] [PyStr ''red'', PyBool True]
       [(''show_vertices'', PyBool False)] []
   = (Inr (),
      [Add_patch [[0, 0], [0, 0]] [MOVETO, CLOSEPOLY] (PyStr ''gray''),
       Add_patch [[3, 1], [0, 0]] [MOVETO, CLOSEPOLY] (PyStr ''gray'')])"
proof -
  let ?kw = "[(''color'', PyStr ''blue''), (''vertex_color'', PyStr ''green''),
              (''vertex_marker'', PyStr ''x''), (''vertex_size'', PyInt 4)]"
  have b: "is_bounded fin_isl [[0, 0], [3, 1]]"
    by (simp add: fin_isl_def)
  have styled: "isl_foreach
          (\<lambda>x. plot_bset_shape fin_isl x
                 (kw_pop ?kw ''show_vertices'' (PyBool True))
                 (kw_pop ?kw ''color'' (PyStr ''gray''))
                 (kw_pop ?kw ''vertex_color'' PyNone)
                 (kw_pop ?kw ''vertex_marker'' (PyStr ''o''))
                 (kw_pop ?kw ''vertex_size'' (PyInt 10)))
          (foreach_basic_set fin_isl [[0, 0], [3, 1]]) []
        = (Inr (),
           [Plot [0] [0] (PyStr ''x'') (PyInt 4) (PyStr ''green'') None,
            Add_patch [[0, 0], [0, 0]] [MOVETO, CLOSEPOLY] (PyStr ''blue''),
            Plot [3] [1] (PyStr ''x'') (PyInt 4) (PyStr ''green'') None,
            Add_patch [[3, 1], [0, 0]] [MOVETO, CLOSEPOLY] (PyStr ''blue'')])"
    by code_simp
  have plain: "isl_foreach
          (\<lambda>x. plot_bset_shape fin_isl x
                 (kw_pop [(''show_vertices'', PyBool False)] ''show_vertices'' (PyBool True))
                 (kw_pop [(''show_vertices'', PyBool False)] ''color'' (PyStr ''gray''))
                 (kw_pop [(''show_vertices'', PyBool False)] ''vertex_color'' PyNone)
                 (kw_pop [(''show_vertices'', PyBool False)] ''vertex_marker'' (PyStr ''o''))
                 (kw_pop [(''show_vertices'', PyBool False)] ''vertex_size'' (PyInt 10)))
          (foreach_basic_set fin_isl [[0, 0], [3, 1]]) []
        = (Inr (),
           [Add_patch [[0, 0], [0, 0]] [MOVETO, CLOSEPOLY] (PyStr ''gray''),
            Add_patch [[3, 1], [0, 0]] [MOVETO, CLOSEPOLY] (PyStr ''gray'')])"
    by code_simp
  show ?thesis
    using plot_set_shapes_ignores_args [of fin_isl "[[0, 0], [3, 1]]"
        "[PyStr ''red'', PyBool False]" ?kw "[]" "[]", THEN conjunct2]
      plot_set_shapes_ignores_args [of fin_isl "[[0, 0], [3, 1]]"
        "[PyStr ''red'', PyBool True]" "[(''show_vertices'', PyBool False)]" "[]" "[]",
        THEN conjunct2]
    unfolding styled plain using b by simp
qed

text \<open>
  A keyword that \<^verbatim>\<open>plot_bset_shape\<close> does not accept is forwarded as well: the call on the
  first basic set fails, and the failure is raised as the error of the set library.
\<close>

lemma plot_set_shapes_unknown_keyword:
  assumes "is_bounded lib set_data"
    and "foreach_basic_set lib set_data \<noteq> []"
    and "\<not> list_all (\<lambda>k. k \<in> set plot_bset_shape_keywords) (map fst kw)"
  shows "plot_set_shapes lib set_data args kw cv = (Inl IslError, cv)"
proof -
  from assms(2) obtain x xs where "foreach_basic_set lib set_data = x # xs"
    by (cases "foreach_basic_set lib set_data") auto
  then show ?thesis
    using assms(1,3) by (simp add: plot_set_shapes_def isl_foreach_def call_plot_bset_shape_def)
qed


section \<open>The map renderer\<close>

lemma enumerate_singleton:
  assumes "set xs = {x}" and "distinct xs"
  shows "xs = [x]"
proof (cases xs)
  case Nil
  with assms show ?thesis by simp
next
  case (Cons y ys)
  with assms have "y = x" by auto
  moreover from Cons assms have "set ys \<subseteq> {x}" "x \<notin> set ys" using \<open>y = x\<close> by auto
  then have "ys = []" by (cases ys) auto
  ultimately show ?thesis using Cons by simp
qed

lemma isl_relational_foreach_point:
  "isl_relational lib P R \<Longrightarrow> finite (P s) \<Longrightarrow>
     set (foreach_point lib s) = P s \<and> distinct (foreach_point lib s)"
  by (simp add: isl_relational_def)

lemma isl_relational_range:
  "isl_relational lib P R \<Longrightarrow> P (range_of lib m) = Range (R m)"
  by (simp add: isl_relational_def)

lemma isl_relational_group:
  "isl_relational lib P R \<Longrightarrow>
     P (domain_of lib (intersect_range lib m (from_point lib q))) = {a. (a, q) \<in> R m}"
  by (auto simp add: isl_relational_def)

text \<open>
  Claim C1, as amended. For every map that holds exactly one pair, of a domain point \<open>a\<close>
  and a range point \<open>b\<close> that both have exactly two coordinates, \<^verbatim>\<open>plot_map\<close> draws
  exactly one arrow: the annotation with \<^verbatim>\<open>xytext\<close> at the coordinates of \<open>a\<close> and
  \<^verbatim>\<open>xy\<close> at the coordinates of \<open>b\<close>, in the given style, width and colour. With the
  default style \<^verbatim>\<open>->\<close> its tail is at the domain point and its head at the range point:
  arrows run from domain to range, from the input to the output element as the
  docstring of \<^verbatim>\<open>plot_map\<close> says. The claim as written has the arrow the other way
  round. What the map holds is read through the contract of the library.
\<close>

theorem plot_map_single_pair:
  assumes "isl_relational lib P R" and "R map_data = {(a, b)}"
    and "length (get_point_coordinates lib a) = 2"
    and "length (get_point_coordinates lib b) = 2"
  shows "plot_map lib map_data edge_style edge_width color cv
         = (Inr (),
            cv @ [Annotate '''' (get_point_coordinates lib b) ''data''
                    (get_point_coordinates lib a) ''data''
                    \<lparr>ap_arrowstyle = edge_style, ap_connectionstyle = ''arc3'',
                     ap_shrinkA = 10, ap_shrinkB = 10,
                     ap_linewidth = edge_width, ap_color = color\<rparr>])
       \<and> (edge_style = PyStr ''->'' \<longrightarrow>
            map arrow_tail (issued cv (plot_map lib map_data edge_style edge_width color cv))
              = [Some (get_point_coordinates lib a)]
          \<and> map arrow_head (issued cv (plot_map lib map_data edge_style edge_width color cv))
              = [Some (get_point_coordinates lib b)])"
proof -
  have "P (range_of lib map_data) = {b}"
    using assms by (simp add: isl_relational_range)
  then have start_points: "foreach_point lib (range_of lib map_data) = [b]"
    using isl_relational_foreach_point [OF assms(1), of "range_of lib map_data"]
    by (simp add: enumerate_singleton)
  have "P (domain_of lib (intersect_range lib map_data (from_point lib b))) = {a}"
    using assms by (simp add: isl_relational_group)
  then have end_points:
    "foreach_point lib (domain_of lib (intersect_range lib map_data (from_point lib b))) = [a]"
    using isl_relational_foreach_point [OF assms(1),
        of "domain_of lib (intersect_range lib map_data (from_point lib b))"]
    by (simp add: enumerate_singleton)
  show ?thesis
    by (simp add: plot_map_def start_points end_points plot_arrow_def kw_pop_def issued_def
        assms(3,4))
qed

text \<open>
  When one of the two points does not have two coordinates, the plotting library refuses
  the annotation and nothing is drawn.
\<close>

lemma plot_map_pair_not_planar:
  assumes "isl_relational lib P R" and "R map_data = {(a, b)}"
    and "length (get_point_coordinates lib a) \<noteq> 2 \<or> length (get_point_coordinates lib b) \<noteq> 2"
  shows "plot_map lib map_data edge_style edge_width color cv = (Inl ValueError, cv)"
proof -
  have "P (range_of lib map_data) = {b}"
    using assms by (simp add: isl_relational_range)
  then have start_points: "foreach_point lib (range_of lib map_data) = [b]"
    using isl_relational_foreach_point [OF assms(1), of "range_of lib map_data"]
    by (simp add: enumerate_singleton)
  have "P (domain_of lib (intersect_range lib map_data (from_point lib b))) = {a}"
    using assms by (simp add: isl_relational_group)
  then have end_points:
    "foreach_point lib (domain_of lib (intersect_range lib map_data (from_point lib b))) = [a]"
    using isl_relational_foreach_point [OF assms(1),
        of "domain_of lib (intersect_range lib map_data (from_point lib b))"]
    by (simp add: enumerate_singleton)
  show ?thesis
    using assms(3) by (auto simp add: plot_map_def start_points end_points plot_arrow_def)
qed

lemma fin_isl_relational: "isl_relational fin_isl set set"
  unfolding isl_relational_def fin_isl_def
  by (simp add: Range_snd Domain_fst) (auto simp: image_iff split: prod.splits; force)

text \<open>An instance: the map with the one pair \<open>(0,0) \<rightarrow> (1,1)\<close>.\<close>

theorem plot_map_single_pair_witness:
  "plot_map fin_isl [([0, 0], [1, 1])] (PyStr ''->'') (PyInt 1) (PyStr ''black'') []
   = (Inr (), [Annotate '''' [1, 1] ''data'' [0, 0] ''data''
                 \<lparr>ap_arrowstyle = PyStr ''->'', ap_connectionstyle = ''arc3'',
                  ap_shrinkA = 10, ap_shrinkB = 10,
                  ap_linewidth = PyInt 1, ap_color = PyStr ''black''\<rparr>])
   \<and> map arrow_tail (issued [] (plot_map fin_isl [([0, 0], [1, 1])] (PyStr ''->'') (PyInt 1)
         (PyStr ''black'') [])) = [Some [0, 0]]
   \<and> map arrow_head (issued [] (plot_map fin_isl [([0, 0], [1, 1])] (PyStr ''->'') (PyInt 1)
         (PyStr ''black'') [])) = [Some [1, 1]]"
proof -
  have c: "get_point_coordinates fin_isl = (\<lambda>p. p)"
    by (simp add: fin_isl_def)
  show ?thesis
    using plot_map_single_pair [OF fin_isl_relational, of "[([0, 0], [1, 1])]" "[0, 0]" "[1, 1]"
        "PyStr ''->''" "PyInt 1" "PyStr ''black''" "[]"]
    unfolding c by (simp add: issued_def)
qed

text \<open>
  The claim as written fails on the map with the one pair \<open>(0,0) \<rightarrow> (1,1)\<close>: the arrow
  drawn does not have its tail at \<open>(1,1)\<close> and its head at \<open>(0,0)\<close>.
\<close>

theorem plot_map_single_pair_counterexample:
  "\<not> (map arrow_tail (issued [] (plot_map fin_isl [([0, 0], [1, 1])] (PyStr ''->'') (PyInt 1)
           (PyStr ''black'') [])) = [Some [1, 1]]
      \<and> map arrow_head (issued [] (plot_map fin_isl [([0, 0], [1, 1])] (PyStr ''->'') (PyInt 1)
           (PyStr ''black'') [])) = [Some [0, 0]])"
  by code_simp

section \<open>The grouped map renderer\<close>

lemma for_each_append:
  "for_each body (xs @ ys) cv = then_do (for_each body xs cv) (for_each body ys)"
proof (induction xs arbitrary: cv)
  case Nil
  show ?case by simp
next
  case (Cons x xs)
  obtain r cv' where b: "body x cv = (r, cv')" by (cases "body x cv")
  show ?case
  proof (cases r)
    case (Inl e)
    with b show ?thesis by simp
  next
    case (Inr u)
    with b Cons.IH show ?thesis by simp
  qed
qed

lemma plot_group_not_convex:
  "\<not> convex_group lib bmap point \<Longrightarrow>
     plot_group lib bmap color vertex_color vertex_marker vertex_size point cv
     = (Inl (AssertionError None), cv)"
  by (simp add: plot_group_def convex_group_def group_of_def)

text \<open>
  Claim C4, as amended. \<^verbatim>\<open>plot_map_as_groups\<close> takes the groups in the order in which
  the points of the range are enumerated and compares each with its convex hull before it
  draws anything of it. If some group is not equal to its convex hull, the call fails and
  does not recover, and that group (and every later one) is never rendered: the canvas
  holds only what the earlier groups left. The failure is the assertion error of the
  comparison when the earlier groups were rendered without error; when rendering an
  earlier group has raised, that error ends the call. The claim as written promises
  the assertion error in every case.
\<close>

theorem plot_map_as_groups_not_convex:
  assumes "foreach_point lib (range_of lib bmap) = earlier @ point # later"
    and "\<not> convex_group lib bmap point"
  shows "plot_map_as_groups lib bmap color vertex_color vertex_marker vertex_size cv
         = (case for_each (plot_group lib bmap color
                      (if truthy vertex_color then vertex_color else color)
                      vertex_marker vertex_size) earlier cv of
              (Inl e, cv') \<Rightarrow> (Inl e, cv')
            | (Inr u, cv') \<Rightarrow> (Inl (AssertionError None), cv'))
       \<and> (\<exists>e. fst (plot_map_as_groups lib bmap color vertex_color vertex_marker vertex_size cv)
                 = Inl e)"
proof -
  let ?body = "plot_group lib bmap color (if truthy vertex_color then vertex_color else color)
                 vertex_marker vertex_size"
  obtain r cv' where e: "for_each ?body earlier cv = (r, cv')"
    by (cases "for_each ?body earlier cv")
  have "plot_map_as_groups lib bmap color vertex_color vertex_marker vertex_size cv
        = then_do (for_each ?body earlier cv) (for_each ?body (point # later))"
    by (simp add: plot_map_as_groups_def assms(1) for_each_append)
  then show ?thesis
    using e by (cases r) (simp_all add: plot_group_not_convex [OF assms(2)])
qed

text \<open>
  An instance, with the range enumerated as \<open>7, 6, 8\<close>: the group of tile \<open>7\<close> is a
  single point and is rendered; the group of tile \<open>6\<close> is \<open>{(0,0), (2,0), (1,1)}\<close>,
  whose hull also holds \<open>(1,0)\<close>.
\<close>

theorem plot_map_as_groups_not_convex_witness:
  "plot_map_as_groups fin_isl
       [([5, 5], [7]), ([0, 0], [6]), ([2, 0], [6]), ([1, 1], [6]), ([9, 9], [8])]
       (PyStr ''gray'') PyNone (PyStr ''o'') (PyInt 10) []
   = (Inl (AssertionError None),
      [Plot [5] [5] (PyStr ''o'') (PyInt 10) (PyStr ''gray'') (Some (PyInt 0)),
       Plot [5] [5] (PyStr ''o'') (PyInt 10) (PyStr ''gray'') None,
       Add_patch [[5, 5], [0, 0]] [MOVETO, CLOSEPOLY] (PyStr ''gray'')])"
proof -
  let ?bmap = "[([5, 5], [7]), ([0, 0], [6]), ([2, 0], [6]), ([1, 1], [6]), ([9, 9], [8])]"
  have pts: "foreach_point fin_isl (range_of fin_isl ?bmap) = [[7]] @ [6] # [[8]]"
    by code_simp
  have nc: "\<not> convex_group fin_isl ?bmap [6]"
    by code_simp
  have pre: "for_each (plot_group fin_isl ?bmap (PyStr ''gray'')
               (if truthy PyNone then PyNone else PyStr ''gray'') (PyStr ''o'') (PyInt 10)) [[7]] []
             = (Inr (),
                [Plot [5] [5] (PyStr ''o'') (PyInt 10) (PyStr ''gray'') (Some (PyInt 0)),
                 Plot [5] [5] (PyStr ''o'') (PyInt 10) (PyStr ''gray'') None,
                 Add_patch [[5, 5], [0, 0]] [MOVETO, CLOSEPOLY] (PyStr ''gray'')])"
    by code_simp
  show ?thesis
    using plot_map_as_groups_not_convex [OF pts nc, of "PyStr ''gray''" PyNone "PyStr ''o''"
        "PyInt 10" "[]"]
    unfolding pre by simp
qed

text \<open>
  The claim as written fails on a one-dimensional tiling whose range is enumerated as
  \<open>7, 6, 8\<close>: the group of tile \<open>6\<close>, \<open>{(3), (5)}\<close>, is not convex, yet the call fails
  with \<^verbatim>\<open>IndexError\<close>, raised while the points of the convex group of tile \<open>7\<close>, which
  comes first, are plotted.
\<close>

theorem plot_map_as_groups_not_convex_counterexample:
  "\<not> convex_group fin_isl [([0], [7]), ([3], [6]), ([5], [6]), ([9], [8])] [6]
   \<and> foreach_point fin_isl (range_of fin_isl [([0], [7]), ([3], [6]), ([5], [6]), ([9], [8])])
     = [[7], [6], [8]]
   \<and> plot_map_as_groups fin_isl [([0], [7]), ([3], [6]), ([5], [6]), ([9], [8])]
       (PyStr ''gray'') PyNone (PyStr ''o'') (PyInt 10) []
     = (Inl IndexError, [])"
  by code_simp



section \<open>The scene renderer\<close>

text \<open>
  Claim C6. With a transform \<^verbatim>\<open>space\<close>, \<^verbatim>\<open>plot_domain\<close> configures the canvas and then
  works on the transformed objects only: the domain with the transform applied; the
  dependences, when given, with the transform applied to the range and then to the
  domain; the tiling, when given, with the transform applied to its domain. The hull
  is that of the transformed domain, the points plotted are those of the transformed
  domain, the arrows are those of the transformed dependences (restricted to the
  transformed domain, and without the pairs inside a tile of the transformed tiling), and
  the groups are those of the transformed tiling. Under the contract of the library the
  transformed domain is the image of the domain, a transformed dependence joins the
  images of the two end points of a dependence, and the transformed tiling maps the image
  of a point to the tile of the point.
\<close>

theorem plot_domain_space:
  "(let domain_set = apply_set lib domain_arg sp;
        deps = map_option (\<lambda>d. apply_domain lib (apply_range lib d sp) sp) deps_arg;
        tiling = map_option (\<lambda>t. apply_domain lib t sp) tiling_arg
    in plot_domain lib domain_arg deps_arg tiling_arg (Some sp) tile_color vertex_color
         vertex_size vertex_marker background cv
       = then_do
           (if truthy background
            then plot_set_points lib (get_rectangular_hull lib domain_set 1) (PyStr ''lightgray'')
                   vertex_size vertex_marker (cv @ [Autoscale True True, Tight_layout])
            else (Inr (), cv @ [Autoscale True True, Tight_layout]))
           (\<lambda>cv. then_do
              (plot_set_points lib domain_set vertex_color vertex_size vertex_marker cv)
           (\<lambda>cv. then_do
              (case deps of
                 None \<Rightarrow> (Inr (), cv)
               | Some d \<Rightarrow>
                   plot_map lib
                     (case tiling of
                        None \<Rightarrow>
                          intersect_domain lib (intersect_range lib d domain_set) domain_set
                      | Some t \<Rightarrow>
                          subtract lib
                            (intersect_domain lib (intersect_range lib d domain_set) domain_set)
                            (apply_range lib t (reverse lib t)))
                     (PyStr ''->'') (PyInt 1) (PyStr ''gray'') cv)
           (\<lambda>cv. case tiling of
                 None \<Rightarrow> (Inr (), cv)
               | Some t \<Rightarrow>
                   plot_map_as_groups lib (intersect_domain lib t domain_set) tile_color
                     vertex_color vertex_marker vertex_size cv)))
     \<and> (isl_applies lib P R \<longrightarrow>
          P domain_set = {q. \<exists>p. p \<in> P domain_arg \<and> (p, q) \<in> R sp}
        \<and> (\<forall>d. deps_arg = Some d \<longrightarrow>
              (\<exists>d'. deps = Some d'
                 \<and> R d' = {(a', b'). \<exists>a b. (a, b) \<in> R d \<and> (a, a') \<in> R sp \<and> (b, b') \<in> R sp}))
        \<and> (\<forall>t. tiling_arg = Some t \<longrightarrow>
              (\<exists>t'. tiling = Some t'
                 \<and> R t' = {(a', tile). \<exists>a. (a, tile) \<in> R t \<and> (a, a') \<in> R sp}))))"
proof -
  have shape: "plot_domain lib domain_arg deps_arg tiling_arg (Some sp) tile_color vertex_color
         vertex_size vertex_marker background cv
       = then_do
           (if truthy background
            then plot_set_points lib (get_rectangular_hull lib (apply_set lib domain_arg sp) 1)
                   (PyStr ''lightgray'') vertex_size vertex_marker
                   (cv @ [Autoscale True True, Tight_layout])
            else (Inr (), cv @ [Autoscale True True, Tight_layout]))
           (\<lambda>cv. then_do
              (plot_set_points lib (apply_set lib domain_arg sp) vertex_color vertex_size
                 vertex_marker cv)
           (\<lambda>cv. then_do
              (case map_option (\<lambda>d. apply_domain lib (apply_range lib d sp) sp) deps_arg of
                 None \<Rightarrow> (Inr (), cv)
               | Some d \<Rightarrow>
                   plot_map lib
                     (case map_option (\<lambda>t. apply_domain lib t sp) tiling_arg of
                        None \<Rightarrow>
                          intersect_domain lib
                            (intersect_range lib d (apply_set lib domain_arg sp))
                            (apply_set lib domain_arg sp)
                      | Some t \<Rightarrow>
                          subtract lib
                            (intersect_domain lib
                               (intersect_range lib d (apply_set lib domain_arg sp))
                               (apply_set lib domain_arg sp))
                            (apply_range lib t (reverse lib t)))
                     (PyStr ''->'') (PyInt 1) (PyStr ''gray'') cv)
           (\<lambda>cv. case map_option (\<lambda>t. apply_domain lib t sp) tiling_arg of
                 None \<Rightarrow> (Inr (), cv)
               | Some t \<Rightarrow>
                   plot_map_as_groups lib (intersect_domain lib t (apply_set lib domain_arg sp))
                     tile_color vertex_color vertex_marker vertex_size cv)))"
    by (cases deps_arg; cases tiling_arg) (simp_all add: plot_domain_def Let_def)
  have reading: "P (apply_set lib domain_arg sp) = {q. \<exists>p. p \<in> P domain_arg \<and> (p, q) \<in> R sp}"
    "R (apply_domain lib (apply_range lib d sp) sp)
       = {(a', b'). \<exists>a b. (a, b) \<in> R d \<and> (a, a') \<in> R sp \<and> (b, b') \<in> R sp}"
    "R (apply_domain lib t sp) = {(a', tile). \<exists>a. (a, tile) \<in> R t \<and> (a, a') \<in> R sp}"
    if "isl_applies lib P R" for d t
    using that by (auto simp add: isl_applies_def)
  show ?thesis
    unfolding Let_def using shape reading by simp
qed

text \<open>
  Claim C5, as amended. When the points of the domain, and those of its rectangular hull
  widened by 1, have at least two coordinates, \<^verbatim>\<open>plot_domain\<close> with the background on
  and without dependences, tiling and transform returns after exactly these calls: the
  two calls that configure the canvas (\<^verbatim>\<open>autoscale\<close>, \<^verbatim>\<open>tight_layout\<close>), the plot of the
  points of the widened hull in \<^verbatim>\<open>lightgray\<close>, and the plot of the points of the domain in
  the vertex colour; both plots with the vertex marker and size. The claim as written
  is stated for every domain; on a domain of fewer than two dimensions the code raises
  \<^verbatim>\<open>IndexError\<close> instead.
\<close>

theorem plot_domain_background_only:
  assumes "\<forall>p \<in> set (foreach_point lib (get_rectangular_hull lib domain_set 1)).
             2 \<le> length (get_point_coordinates lib p)"
    and "\<forall>p \<in> set (foreach_point lib domain_set). 2 \<le> length (get_point_coordinates lib p)"
    and "truthy background"
  shows "plot_domain lib domain_set None None None tile_color vertex_color vertex_size vertex_marker
           background cv
         = (Inr (),
            cv @ [Autoscale True True, Tight_layout,
                  Plot (map (\<lambda>p. get_point_coordinates lib p ! 0)
                          (foreach_point lib (get_rectangular_hull lib domain_set 1)))
                       (map (\<lambda>p. get_point_coordinates lib p ! 1)
                          (foreach_point lib (get_rectangular_hull lib domain_set 1)))
                       vertex_marker vertex_size (PyStr ''lightgray'') (Some (PyInt 0)),
                  Plot (map (\<lambda>p. get_point_coordinates lib p ! 0) (foreach_point lib domain_set))
                       (map (\<lambda>p. get_point_coordinates lib p ! 1) (foreach_point lib domain_set))
                       vertex_marker vertex_size vertex_color (Some (PyInt 0))])
       \<and> filter is_drawing
           (issued cv (plot_domain lib domain_set None None None tile_color vertex_color
              vertex_size vertex_marker background cv))
         = [Plot (map (\<lambda>p. get_point_coordinates lib p ! 0)
                    (foreach_point lib (get_rectangular_hull lib domain_set 1)))
                 (map (\<lambda>p. get_point_coordinates lib p ! 1)
                    (foreach_point lib (get_rectangular_hull lib domain_set 1)))
                 vertex_marker vertex_size (PyStr ''lightgray'') (Some (PyInt 0)),
            Plot (map (\<lambda>p. get_point_coordinates lib p ! 0) (foreach_point lib domain_set))
                 (map (\<lambda>p. get_point_coordinates lib p ! 1) (foreach_point lib domain_set))
                 vertex_marker vertex_size vertex_color (Some (PyInt 0))]"
  using assms(3)
  by (simp add: plot_domain_def plot_set_points_ok [OF assms(1)] plot_set_points_ok [OF assms(2)]
      issued_def is_drawing_def)

lemma fin_isl_applies: "isl_applies fin_isl set set"
  unfolding isl_applies_def fin_isl_def
  by (simp add: Image_def) (auto simp: image_iff split: prod.splits; force)

text \<open>
  An instance: four points in a row in two tiles, the dependences from each point to the
  next, and the transform that swaps the two coordinates. The points, the one arrow
  between the tiles and the two groups are all drawn at the swapped coordinates; the
  dependence that leaves the domain is transformed at both ends as well, and dropped
  afterwards.
\<close>

theorem plot_domain_space_witness:
  "plot_domain fin_isl [[0, 0], [1, 0], [2, 0], [3, 0]]
       (Some [([0, 0], [1, 0]), ([1, 0], [2, 0]), ([2, 0], [3, 0]), ([3, 0], [4, 0])])
       (Some [([0, 0], [0]), ([1, 0], [0]), ([2, 0], [1]), ([3, 0], [1])])
       (Some [([0, 0], [0, 0]), ([1, 0], [0, 1]), ([2, 0], [0, 2]), ([3, 0], [0, 3]),
              ([4, 0], [0, 4])])
       (PyStr ''blue'') (PyStr ''black'') (PyInt 10) (PyStr ''o'') (PyBool False) []
   = (Inr (),
      [Autoscale True True, Tight_layout,
       Plot [0, 0, 0, 0] [0, 1, 2, 3] (PyStr ''o'') (PyInt 10) (PyStr ''black'') (Some (PyInt 0)),
       Annotate '''' [0, 2] ''data'' [0, 1] ''data''
         \<lparr>ap_arrowstyle = PyStr ''->'', ap_connectionstyle = ''arc3'',
          ap_shrinkA = 10, ap_shrinkB = 10, ap_linewidth = PyInt 1, ap_color = PyStr ''gray''\<rparr>,
       Plot [0, 0] [0, 1] (PyStr ''o'') (PyInt 10) (PyStr ''black'') (Some (PyInt 0)),
       Plot [0, 0] [0, 1] (PyStr ''o'') (PyInt 10) (PyStr ''black'') None,
       Add_patch [[0, 0], [0, 1], [0, 0]] [MOVETO, LINETO, CLOSEPOLY] (PyStr ''blue''),
       Plot [0, 0] [2, 3] (PyStr ''o'') (PyInt 10) (PyStr ''black'') (Some (PyInt 0)),
       Plot [0, 0] [2, 3] (PyStr ''o'') (PyInt 10) (PyStr ''black'') None,
       Add_patch [[0, 2], [0, 3], [0, 0]] [MOVETO, LINETO, CLOSEPOLY] (PyStr ''blue'')])
   \<and> set (apply_set fin_isl [[0, 0], [1, 0], [2, 0], [3, 0]]
            [([0, 0], [0, 0]), ([1, 0], [0, 1]), ([2, 0], [0, 2]), ([3, 0], [0, 3]),
             ([4, 0], [0, 4])])
     = {[0, 0], [0, 1], [0, 2], [0, 3]}
   \<and> ([0, 3], [0, 4]) \<in> set (apply_domain fin_isl
         (apply_range fin_isl
            [([0, 0], [1, 0]), ([1, 0], [2, 0]), ([2, 0], [3, 0]), ([3, 0], [4, 0])]
            [([0, 0], [0, 0]), ([1, 0], [0, 1]), ([2, 0], [0, 2]), ([3, 0], [0, 3]),
             ([4, 0], [0, 4])])
         [([0, 0], [0, 0]), ([1, 0], [0, 1]), ([2, 0], [0, 2]), ([3, 0], [0, 3]),
          ([4, 0], [0, 4])])
   \<and> ([0, 2], [1]) \<in> set (apply_domain fin_isl
         [([0, 0], [0]), ([1, 0], [0]), ([2, 0], [1]), ([3, 0], [1])]
         [([0, 0], [0, 0]), ([1, 0], [0, 1]), ([2, 0], [0, 2]), ([3, 0], [0, 3]),
          ([4, 0], [0, 4])])"
proof -
  let ?D = "[[0, 0], [1, 0], [2, 0], [3, 0]] :: fin_set"
  let ?deps = "[([0, 0], [1, 0]), ([1, 0], [2, 0]), ([2, 0], [3, 0]), ([3, 0], [4, 0])] :: fin_map"
  let ?til = "[([0, 0], [0]), ([1, 0], [0]), ([2, 0], [1]), ([3, 0], [1])] :: fin_map"
  let ?sp = "[([0, 0], [0, 0]), ([1, 0], [0, 1]), ([2, 0], [0, 2]), ([3, 0], [0, 3]),
              ([4, 0], [0, 4])] :: fin_map"
  let ?cv1 = "[Autoscale True True, Tight_layout,
       Plot [0, 0, 0, 0] [0, 1, 2, 3] (PyStr ''o'') (PyInt 10) (PyStr ''black'') (Some (PyInt 0))]
       :: int canvas"
  let ?cv2 = "[Autoscale True True, Tight_layout,
       Plot [0, 0, 0, 0] [0, 1, 2, 3] (PyStr ''o'') (PyInt 10) (PyStr ''black'') (Some (PyInt 0)),
       Annotate '''' [0, 2] ''data'' [0, 1] ''data''
         \<lparr>ap_arrowstyle = PyStr ''->'', ap_connectionstyle = ''arc3'',
          ap_shrinkA = 10, ap_shrinkB = 10, ap_linewidth = PyInt 1, ap_color = PyStr ''gray''\<rparr>]
       :: int canvas"
  have dom: "apply_set fin_isl ?D ?sp = [[0, 0], [0, 1], [0, 2], [0, 3]]"
    by code_simp
  have deps: "apply_domain fin_isl (apply_range fin_isl ?deps ?sp) ?sp
              = [([0, 0], [0, 1]), ([0, 1], [0, 2]), ([0, 2], [0, 3]), ([0, 3], [0, 4])]"
    by code_simp
  have til: "apply_domain fin_isl ?til ?sp
             = [([0, 0], [0]), ([0, 1], [0]), ([0, 2], [1]), ([0, 3], [1])]"
    by code_simp
  have points: "plot_set_points fin_isl [[0, 0], [0, 1], [0, 2], [0, 3]] (PyStr ''black'')
                  (PyInt 10) (PyStr ''o'') [Autoscale True True, Tight_layout]
                = (Inr (), ?cv1)"
    by code_simp
  have shown: "subtract fin_isl
                 (intersect_domain fin_isl
                    (intersect_range fin_isl
                       [([0, 0], [0, 1]), ([0, 1], [0, 2]), ([0, 2], [0, 3]), ([0, 3], [0, 4])]
                       [[0, 0], [0, 1], [0, 2], [0, 3]])
                    [[0, 0], [0, 1], [0, 2], [0, 3]])
                 (apply_range fin_isl [([0, 0], [0]), ([0, 1], [0]), ([0, 2], [1]), ([0, 3], [1])]
                    (reverse fin_isl [([0, 0], [0]), ([0, 1], [0]), ([0, 2], [1]), ([0, 3], [1])]))
               = [([0, 1], [0, 2])]"
    by code_simp
  have arrows: "plot_map fin_isl [([0, 1], [0, 2])] (PyStr ''->'') (PyInt 1) (PyStr ''gray'') ?cv1
                = (Inr (), ?cv2)"
    by code_simp
  have groups: "plot_map_as_groups fin_isl
                  (intersect_domain fin_isl
                     [([0, 0], [0]), ([0, 1], [0]), ([0, 2], [1]), ([0, 3], [1])]
                     [[0, 0], [0, 1], [0, 2], [0, 3]])
                  (PyStr ''blue'') (PyStr ''black'') (PyStr ''o'') (PyInt 10) ?cv2
                = (Inr (),
      [Autoscale True True, Tight_layout,
       Plot [0, 0, 0, 0] [0, 1, 2, 3] (PyStr ''o'') (PyInt 10) (PyStr ''black'') (Some (PyInt 0)),
       Annotate '''' [0, 2] ''data'' [0, 1] ''data''
         \<lparr>ap_arrowstyle = PyStr ''->'', ap_connectionstyle = ''arc3'',
          ap_shrinkA = 10, ap_shrinkB = 10, ap_linewidth = PyInt 1, ap_color = PyStr ''gray''\<rparr>,
       Plot [0, 0] [0, 1] (PyStr ''o'') (PyInt 10) (PyStr ''black'') (Some (PyInt 0)),
       Plot [0, 0] [0, 1] (PyStr ''o'') (PyInt 10) (PyStr ''black'') None,
       Add_patch [[0, 0], [0, 1], [0, 0]] [MOVETO, LINETO, CLOSEPOLY] (PyStr ''blue''),
       Plot [0, 0] [2, 3] (PyStr ''o'') (PyInt 10) (PyStr ''black'') (Some (PyInt 0)),
       Plot [0, 0] [2, 3] (PyStr ''o'') (PyInt 10) (PyStr ''black'') None,
       Add_patch [[0, 2], [0, 3], [0, 0]] [MOVETO, LINETO, CLOSEPOLY] (PyStr ''blue'')])"
    by code_simp
  show ?thesis
    using plot_domain_space [where lib = fin_isl and domain_arg = ?D and deps_arg = "Some ?deps"
        and tiling_arg = "Some ?til" and sp = ?sp and P = set and R = set
        and tile_color = "PyStr ''blue''" and vertex_color = "PyStr ''black''"
        and vertex_size = "PyInt 10" and vertex_marker = "PyStr ''o''"
        and background = "PyBool False" and cv = "[]"]
      fin_isl_applies
    by (simp add: Let_def dom deps til points shown arrows groups)
qed

text \<open>An instance: the domain \<open>{(0,0), (1,0)}\<close>, whose widened hull has twelve points.\<close>

theorem plot_domain_background_only_witness:
  "plot_domain fin_isl [[0, 0], [1, 0]] None None None (PyStr ''blue'') (PyStr ''black'')
       (PyInt 10) (PyStr ''o'') (PyBool True) []
   = (Inr (), [Autoscale True True, Tight_layout,
        Plot [- 1, - 1, - 1, 0, 0, 0, 1, 1, 1, 2, 2, 2] [- 1, 0, 1, - 1, 0, 1, - 1, 0, 1, - 1, 0, 1]
          (PyStr ''o'') (PyInt 10) (PyStr ''lightgray'') (Some (PyInt 0)),
        Plot [0, 1] [0, 0] (PyStr ''o'') (PyInt 10) (PyStr ''black'') (Some (PyInt 0))])
   \<and> filter is_drawing (issued [] (plot_domain fin_isl [[0, 0], [1, 0]] None None None
         (PyStr ''blue'') (PyStr ''black'') (PyInt 10) (PyStr ''o'') (PyBool True) []))
     = [Plot [- 1, - 1, - 1, 0, 0, 0, 1, 1, 1, 2, 2, 2] [- 1, 0, 1, - 1, 0, 1, - 1, 0, 1, - 1, 0, 1]
          (PyStr ''o'') (PyInt 10) (PyStr ''lightgray'') (Some (PyInt 0)),
        Plot [0, 1] [0, 0] (PyStr ''o'') (PyInt 10) (PyStr ''black'') (Some (PyInt 0))]"
proof -
  have h: "foreach_point fin_isl (get_rectangular_hull fin_isl [[0, 0], [1, 0]] 1)
           = [[- 1, - 1], [- 1, 0], [- 1, 1], [0, - 1], [0, 0], [0, 1],
              [1, - 1], [1, 0], [1, 1], [2, - 1], [2, 0], [2, 1]]"
    by code_simp
  have d: "foreach_point fin_isl [[0, 0], [1, 0]] = [[0, 0], [1, 0]]"
    by code_simp
  have c: "get_point_coordinates fin_isl = (\<lambda>p. p)"
    by (simp add: fin_isl_def)
  show ?thesis
    using plot_domain_background_only [where lib = fin_isl and domain_set = "[[0, 0], [1, 0]]"
        and background = "PyBool True" and tile_color = "PyStr ''blue''"
        and vertex_color = "PyStr ''black''" and vertex_size = "PyInt 10"
        and vertex_marker = "PyStr ''o''" and cv = "[]"]
    unfolding h d c by (simp add: issued_def is_drawing_def)
qed

text \<open>
  The claim as written fails on the one-dimensional domain \<open>{(0)}\<close>: the call raises
  \<^verbatim>\<open>IndexError\<close> while plotting the hull and issues no plot at all. (Whatever the hull
  helper returns, the plot of the domain's own point raises at the latest.)
\<close>

theorem plot_domain_background_only_counterexample:
  "plot_domain fin_isl [[0]] None None None (PyStr ''blue'') (PyStr ''black'')
       (PyInt 10) (PyStr ''o'') (PyBool True) []
   = (Inl IndexError, [Autoscale True True, Tight_layout])
   \<and> filter is_plot (issued [] (plot_domain fin_isl [[0]] None None None (PyStr ''blue'')
        (PyStr ''black'') (PyInt 10) (PyStr ''o'') (PyBool True) [])) = []"
  by code_simp


section \<open>Dependences in the scene\<close>

lemma then_do_assoc:
  "then_do (then_do x f) g = then_do x (\<lambda>cv. then_do (f cv) g)"
proof -
  obtain r cv where x: "x = (r, cv)" by (cases x)
  show ?thesis unfolding x by (cases r) simp_all
qed

lemma then_do_return: "then_do x (\<lambda>cv. (Inr (), cv)) = x"
proof -
  obtain r cv where x: "x = (r, cv)" by (cases x)
  show ?thesis unfolding x by (cases r) simp_all
qed

lemma isl_relational_restrict:
  "isl_relational lib P R \<Longrightarrow>
     R (intersect_domain lib (intersect_range lib d s) s)
     = {(a, b). (a, b) \<in> R d \<and> a \<in> P s \<and> b \<in> P s}"
  by (auto simp add: isl_relational_def)

lemma isl_relational_same_tile:
  "isl_relational lib P R \<Longrightarrow>
     R (subtract lib d (apply_range lib t (reverse lib t)))
     = {(a, b). (a, b) \<in> R d \<and> \<not> (\<exists>tile. (a, tile) \<in> R t \<and> (b, tile) \<in> R t)}"
  by (auto simp add: isl_relational_def)

text \<open>
  Claim C7. With dependences given, \<^verbatim>\<open>plot_domain\<close> is the scene without dependences and
  tiling, followed by \<^verbatim>\<open>plot_map\<close> in gray on the dependences to show, followed by the
  groups of the tiling restricted to the domain when a tiling is given. The dependences
  to show are the (transformed) dependences restricted in range and in domain to the
  (transformed) domain, minus, when a tiling is given, the tiling composed with its
  reverse. Under the contract of the library these are the pairs of the dependences
  with both end points in the domain, without those whose two end points the tiling maps
  to a common tile.
\<close>

theorem plot_domain_dependences:
  "(let (domain_set, deps, tiling) =
          (case space of
             None \<Rightarrow> (domain_arg, deps_arg, tiling_arg)
           | Some sp \<Rightarrow>
               (apply_set lib domain_arg sp,
                apply_domain lib (apply_range lib deps_arg sp) sp,
                map_option (\<lambda>t. apply_domain lib t sp) tiling_arg));
        restricted = intersect_domain lib (intersect_range lib deps domain_set) domain_set;
        shown = (case tiling of
                   None \<Rightarrow> restricted
                 | Some t \<Rightarrow> subtract lib restricted (apply_range lib t (reverse lib t)))
    in plot_domain lib domain_arg (Some deps_arg) tiling_arg space tile_color vertex_color vertex_size
         vertex_marker background cv
       = then_do
           (plot_domain lib domain_set None None None tile_color vertex_color vertex_size
              vertex_marker background cv)
           (\<lambda>cv. then_do (plot_map lib shown (PyStr ''->'') (PyInt 1) (PyStr ''gray'') cv)
           (\<lambda>cv. case tiling of
                 None \<Rightarrow> (Inr (), cv)
               | Some t \<Rightarrow>
                   plot_map_as_groups lib (intersect_domain lib t domain_set) tile_color
                     vertex_color vertex_marker vertex_size cv))
     \<and> (isl_relational lib P R \<longrightarrow>
          R restricted
            = {(a, b). (a, b) \<in> R deps \<and> a \<in> P domain_set \<and> b \<in> P domain_set}
        \<and> (\<forall>t. tiling = Some t \<longrightarrow>
              R shown = {(a, b). (a, b) \<in> R restricted
                                 \<and> \<not> (\<exists>tile. (a, tile) \<in> R t \<and> (b, tile) \<in> R t)})))"
proof (cases space)
  case None
  show ?thesis
    unfolding None
    by (cases tiling_arg)
      (simp_all add: plot_domain_def Let_def then_do_assoc then_do_return isl_relational_restrict
        isl_relational_same_tile)
next
  case (Some sp)
  show ?thesis
    unfolding Some
    by (cases tiling_arg)
      (simp_all add: plot_domain_def Let_def then_do_assoc then_do_return isl_relational_restrict
        isl_relational_same_tile)
qed

text \<open>
  An instance: four points in a row in two tiles, and the dependences from each point to
  the next. Only the arrow between the tiles is drawn; the dependence that leaves the
  domain is dropped by the restriction.
\<close>

theorem plot_domain_dependences_witness:
  "plot_domain fin_isl [[0, 0], [1, 0], [2, 0], [3, 0]]
       (Some [([0, 0], [1, 0]), ([1, 0], [2, 0]), ([2, 0], [3, 0]), ([3, 0], [4, 0])])
       (Some [([0, 0], [0]), ([1, 0], [0]), ([2, 0], [1]), ([3, 0], [1])])
       None (PyStr ''blue'') (PyStr ''black'') (PyInt 10) (PyStr ''o'') (PyBool False) []
   = (Inr (),
      [Autoscale True True, Tight_layout,
       Plot [0, 1, 2, 3] [0, 0, 0, 0] (PyStr ''o'') (PyInt 10) (PyStr ''black'') (Some (PyInt 0)),
       Annotate '''' [2, 0] ''data'' [1, 0] ''data''
         \<lparr>ap_arrowstyle = PyStr ''->'', ap_connectionstyle = ''arc3'',
          ap_shrinkA = 10, ap_shrinkB = 10, ap_linewidth = PyInt 1, ap_color = PyStr ''gray''\<rparr>,
       Plot [0, 1] [0, 0] (PyStr ''o'') (PyInt 10) (PyStr ''black'') (Some (PyInt 0)),
       Plot [0, 1] [0, 0] (PyStr ''o'') (PyInt 10) (PyStr ''black'') None,
       Add_patch [[0, 0], [1, 0], [0, 0]] [MOVETO, LINETO, CLOSEPOLY] (PyStr ''blue''),
       Plot [2, 3] [0, 0] (PyStr ''o'') (PyInt 10) (PyStr ''black'') (Some (PyInt 0)),
       Plot [2, 3] [0, 0] (PyStr ''o'') (PyInt 10) (PyStr ''black'') None,
       Add_patch [[2, 0], [3, 0], [0, 0]] [MOVETO, LINETO, CLOSEPOLY] (PyStr ''blue'')])
   \<and> ([3, 0], [4, 0]) \<notin> set (intersect_domain fin_isl
         (intersect_range fin_isl
            [([0, 0], [1, 0]), ([1, 0], [2, 0]), ([2, 0], [3, 0]), ([3, 0], [4, 0])]
            [[0, 0], [1, 0], [2, 0], [3, 0]])
         [[0, 0], [1, 0], [2, 0], [3, 0]])"
proof -
  let ?D = "[[0, 0], [1, 0], [2, 0], [3, 0]] :: fin_set"
  let ?deps = "[([0, 0], [1, 0]), ([1, 0], [2, 0]), ([2, 0], [3, 0]), ([3, 0], [4, 0])] :: fin_map"
  let ?til = "[([0, 0], [0]), ([1, 0], [0]), ([2, 0], [1]), ([3, 0], [1])] :: fin_map"
  have shown: "subtract fin_isl (intersect_domain fin_isl (intersect_range fin_isl ?deps ?D) ?D)
                 (apply_range fin_isl ?til (reverse fin_isl ?til)) = [([1, 0], [2, 0])]"
    by code_simp
  have scene: "plot_domain fin_isl ?D None None None (PyStr ''blue'') (PyStr ''black'') (PyInt 10)
                 (PyStr ''o'') (PyBool False) []
               = (Inr (), [Autoscale True True, Tight_layout,
                    Plot [0, 1, 2, 3] [0, 0, 0, 0] (PyStr ''o'') (PyInt 10) (PyStr ''black'')
                      (Some (PyInt 0))])"
    by code_simp
  have arrows: "plot_map fin_isl [([1, 0], [2, 0])] (PyStr ''->'') (PyInt 1) (PyStr ''gray'')
                  [Autoscale True True, Tight_layout,
                   Plot [0, 1, 2, 3] [0, 0, 0, 0] (PyStr ''o'') (PyInt 10) (PyStr ''black'')
                     (Some (PyInt 0))]
                = (Inr (), [Autoscale True True, Tight_layout,
                     Plot [0, 1, 2, 3] [0, 0, 0, 0] (PyStr ''o'') (PyInt 10) (PyStr ''black'')
                       (Some (PyInt 0)),
                     Annotate '''' [2, 0] ''data'' [1, 0] ''data''
                       \<lparr>ap_arrowstyle = PyStr ''->'', ap_connectionstyle = ''arc3'',
                        ap_shrinkA = 10, ap_shrinkB = 10, ap_linewidth = PyInt 1,
                        ap_color = PyStr ''gray''\<rparr>])"
    by code_simp
  have groups: "plot_map_as_groups fin_isl (intersect_domain fin_isl ?til ?D) (PyStr ''blue'')
                  (PyStr ''black'') (PyStr ''o'') (PyInt 10)
                  [Autoscale True True, Tight_layout,
                   Plot [0, 1, 2, 3] [0, 0, 0, 0] (PyStr ''o'') (PyInt 10) (PyStr ''black'')
                     (Some (PyInt 0)),
                   Annotate '''' [2, 0] ''data'' [1, 0] ''data''
                     \<lparr>ap_arrowstyle = PyStr ''->'', ap_connectionstyle = ''arc3'',
                      ap_shrinkA = 10, ap_shrinkB = 10, ap_linewidth = PyInt 1,
                      ap_color = PyStr ''gray''\<rparr>]
                = (Inr (),
      [Autoscale True True, Tight_layout,
       Plot [0, 1, 2, 3] [0, 0, 0, 0] (PyStr ''o'') (PyInt 10) (PyStr ''black'') (Some (PyInt 0)),
       Annotate '''' [2, 0] ''data'' [1, 0] ''data''
         \<lparr>ap_arrowstyle = PyStr ''->'', ap_connectionstyle = ''arc3'',
          ap_shrinkA = 10, ap_shrinkB = 10, ap_linewidth = PyInt 1, ap_color = PyStr ''gray''\<rparr>,
       Plot [0, 1] [0, 0] (PyStr ''o'') (PyInt 10) (PyStr ''black'') (Some (PyInt 0)),
       Plot [0, 1] [0, 0] (PyStr ''o'') (PyInt 10) (PyStr ''black'') None,
       Add_patch [[0, 0], [1, 0], [0, 0]] [MOVETO, LINETO, CLOSEPOLY] (PyStr ''blue''),
       Plot [2, 3] [0, 0] (PyStr ''o'') (PyInt 10) (PyStr ''black'') (Some (PyInt 0)),
       Plot [2, 3] [0, 0] (PyStr ''o'') (PyInt 10) (PyStr ''black'') None,
       Add_patch [[2, 0], [3, 0], [0, 0]] [MOVETO, LINETO, CLOSEPOLY] (PyStr ''blue'')])"
    by code_simp
  show ?thesis
    using plot_domain_dependences [where lib = fin_isl and space = None and domain_arg = ?D
        and deps_arg = ?deps and tiling_arg = "Some ?til" and P = set and R = set
        and tile_color = "PyStr ''blue''" and vertex_color = "PyStr ''black''"
        and vertex_size = "PyInt 10" and vertex_marker = "PyStr ''o''"
        and background = "PyBool False" and cv = "[]"]
      fin_isl_relational
    by (simp add: Let_def shown scene arrows groups)
qed

end
